theory Spec2Isabelle
  imports Complex_Main
begin

section \<open>Python values that fail\<close>

text \<open>
  Exceptions of the modelled Python code are values: a computation returns
  \<open>Inl e\<close> when the source raises \<open>e\<close> and \<open>Inr v\<close> when it returns \<open>v\<close>.
\<close>

datatype error =
  IndexError | KeyError | ZeroDivisionError | ValueError | RuntimeError | CacheMiss

definition bind :: "error + 'a \<Rightarrow> ('a \<Rightarrow> error + 'b) \<Rightarrow> error + 'b" where
  "bind m f = (case m of Inl e \<Rightarrow> Inl e | Inr v \<Rightarrow> f v)"

text \<open>Indexing a Python sequence: negative indices count from the end.\<close>

definition getitem :: "'a list \<Rightarrow> int \<Rightarrow> error + 'a" where
  "getitem xs i =
     (if 0 \<le> i \<and> i < int (length xs) then Inr (xs ! nat i)
      else if - int (length xs) \<le> i \<and> i < 0 then Inr (xs ! nat (int (length xs) + i))
      else Inl IndexError)"

section \<open>dann.py: GradientReverse\<close>

text \<open>
  A tensor is an element of a real vector space: \<open>neg\<close> is \<open>uminus\<close> and the
  product with a scalar is \<open>scaleR\<close>. \<open>x.view_as(x)\<close> is a view of \<open>x\<close> with
  its own shape, the same tensor value. The autograd context \<open>ctx\<close> holds
  the attribute \<open>alpha\<close> once \<open>forward\<close> has stored it.
\<close>

record ctx =
  alpha :: real

definition GradientReverse_forward :: "ctx \<Rightarrow> 't \<Rightarrow> real \<Rightarrow> ctx \<times> 't" where
  "GradientReverse_forward c x a = (c\<lparr>alpha := a\<rparr>, x)"

definition GradientReverse_backward ::
  "ctx \<Rightarrow> 't::real_vector \<Rightarrow> 't \<times> 't option" where
  "GradientReverse_backward c grad_output =
     (let output = alpha c *\<^sub>R (- grad_output) in (output, None))"

text \<open>\<open>GradientReverse.apply(x, alpha)\<close>: the value of the forward pass.\<close>

definition GradientReverse_apply :: "'t \<Rightarrow> real \<Rightarrow> 't" where
  "GradientReverse_apply x a = snd (GradientReverse_forward \<lparr>alpha = 0\<rparr> x a)"

section \<open>dann.py: pairing the loaders in fit\<close>

text \<open>
  \<open>itertools.cycle(it)\<close> yields the elements of \<open>it\<close>, saving each, and then
  replays the saved elements for ever; it is exhausted only when \<open>it\<close> was
  empty. Its state is what is left of \<open>it\<close>, the saved elements, and what is
  left of the current replay.
\<close>

type_synonym 'a cycle = "'a list \<times> 'a list \<times> 'a list"

definition cycle :: "'a list \<Rightarrow> 'a cycle" where
  "cycle xs = (xs, [], [])"

fun cycle_next :: "'a cycle \<Rightarrow> ('a \<times> 'a cycle) option" where
  "cycle_next (x # rest, saved, replay) = Some (x, (rest, saved @ [x], replay))"
| "cycle_next ([], saved, y # replay) = Some (y, ([], saved, replay))"
| "cycle_next ([], y # saved, []) = Some (y, ([], y # saved, saved))"
| "cycle_next ([], [], []) = None"

text \<open>
  \<open>zip(a, b)\<close> asks \<open>a\<close> for its next element first and stops as soon as one
  of the two is exhausted. \<open>zip_list_cycle xs c\<close> is \<open>zip(xs, c)\<close> for a cycle
  \<open>c\<close>, and \<open>zip_cycle_list c ys\<close> is \<open>zip(c, ys)\<close>.
\<close>

fun zip_list_cycle :: "'a list \<Rightarrow> 'b cycle \<Rightarrow> ('a \<times> 'b) list" where
  "zip_list_cycle [] c = []"
| "zip_list_cycle (x # xs) c =
     (case cycle_next c of
        None \<Rightarrow> []
      | Some (y, c') \<Rightarrow> (x, y) # zip_list_cycle xs c')"

fun zip_cycle_list :: "'a cycle \<Rightarrow> 'b list \<Rightarrow> ('a \<times> 'b) list" where
  "zip_cycle_list c ys =
     (case cycle_next c of
        None \<Rightarrow> []
      | Some (x, c') \<Rightarrow>
          (case ys of [] \<Rightarrow> [] | y # ys' \<Rightarrow> (x, y) # zip_cycle_list c' ys'))"

definition zip_loader :: "'b list \<Rightarrow> 'b list \<Rightarrow> ('b \<times> 'b) list" where
  "zip_loader source_loader target_loader =
     (if length source_loader > length target_loader
      then zip_list_cycle source_loader (cycle target_loader)
      else zip_cycle_list (cycle source_loader) target_loader)"

definition enumerate_py :: "'a list \<Rightarrow> (int \<times> 'a) list" where
  "enumerate_py xs = zip (map int [0..<length xs]) xs"


text \<open>
  The hooks of the training half of an epoch. \<open>fit\<close> calls them as methods
  of the trainer, which a subclass may override, so they are parameters
  here; each takes the trainer state and returns the new one, or raises.
\<close>

record ('st, 'b) hooks =
  before_training_epoch :: "'st \<Rightarrow> int \<Rightarrow> int \<Rightarrow> error + 'st"
  before_training_step :: "'st \<Rightarrow> int \<Rightarrow> int \<Rightarrow> error + 'st"
  training_step :: "'st \<Rightarrow> 'b \<Rightarrow> 'b \<Rightarrow> int \<Rightarrow> int \<Rightarrow> int \<Rightarrow> int \<Rightarrow> error + 'st"
  after_training_step :: "'st \<Rightarrow> int \<Rightarrow> int \<Rightarrow> error + 'st"
  after_training_epoch :: "'st \<Rightarrow> int \<Rightarrow> int \<Rightarrow> error + 'st"

text \<open>
  The loop \<open>for batch_id, (cur_source_loader, cur_target_loader) in
  enumerate(zip_loader)\<close> of \<open>fit\<close>, over the pairs that are left.
\<close>

fun training_steps ::
  "('st, 'b) hooks \<Rightarrow> int \<Rightarrow> int \<Rightarrow> int \<Rightarrow> 'st \<Rightarrow> (int \<times> 'b \<times> 'b) list \<Rightarrow> error + 'st" where
  "training_steps h num_batches t num_epochs self [] = Inr self"
| "training_steps h num_batches t num_epochs self
       ((batch_id, (cur_source_loader, cur_target_loader)) # rest) =
     bind (before_training_step h self batch_id num_batches) (\<lambda>self.
     bind (training_step h self cur_source_loader cur_target_loader
             batch_id num_batches t num_epochs) (\<lambda>self.
     bind (after_training_step h self batch_id num_batches) (\<lambda>self.
     training_steps h num_batches t num_epochs self rest)))"

text \<open>
  The training half of epoch \<open>t\<close> of \<open>fit\<close> (from \<open>num_batches = max(...)\<close>
  to \<open>after_training_epoch\<close>). A loader is the list of the batches it
  yields in this epoch, so \<open>len(loader)\<close> is the length of the list;
  \<open>set_epoch\<close> of a sampler decides which batches these are, and the train
  mode of the modules what their forward functions compute, neither the
  iteration.
\<close>

definition training_epoch ::
  "('st, 'b) hooks \<Rightarrow> 'st \<Rightarrow> 'b list \<Rightarrow> 'b list \<Rightarrow> int \<Rightarrow> int \<Rightarrow> error + 'st" where
  "training_epoch h self source_loader target_loader t num_epochs =
     (let num_batches = int (max (length source_loader) (length target_loader));
          zl = zip_loader source_loader target_loader
      in bind (before_training_epoch h self (t + 1) num_epochs) (\<lambda>self.
         bind (training_steps h num_batches t num_epochs self (enumerate_py zl)) (\<lambda>self.
         after_training_epoch h self (t + 1) num_epochs)))"

text \<open>
  Hooks that do nothing but for \<open>on_training_step\<close>, which appends the
  arguments of its call to the state: the state is then the sequence of the
  training steps that the epoch has executed.
\<close>

definition recording_hooks ::
  "((int \<times> int \<times> 'b \<times> 'b) list, 'b) hooks" where
  "recording_hooks =
     \<lparr>before_training_epoch = (\<lambda>self _ _. Inr self),
      before_training_step = (\<lambda>self _ _. Inr self),
      training_step = (\<lambda>self s t batch_id num_batches _ _.
         Inr (self @ [(batch_id, num_batches, s, t)])),
      after_training_step = (\<lambda>self _ _. Inr self),
      after_training_epoch = (\<lambda>self _ _. Inr self)\<rparr>"


section \<open>dann.py: DANNTrainer\<close>

text \<open>
  The trainer holds three modules by name. Every tensor of a training step
  is kept with the autograd history that \<open>loss.backward()\<close> walks: the
  operations that made it, down to the batch tensors. A loss is a tensor
  with no dimension, so the sum and the product with a scalar are those of
  the tensors.
\<close>

datatype module_key = extractor | classifier | domain_classifier

datatype 't tensor =
    Input 't
  | Zeros nat
  | Ones nat
  | Module module_key "'t tensor"
  | GradientReverse "'t tensor" real
  | Loss_fn "'t tensor" "'t tensor"
  | Add "'t tensor" "'t tensor"
  | Mul real "'t tensor"

text \<open>
  What the trainer takes from PyTorch and torchmetrics, as parameters: the
  forward function of each module at its current parameters, the
  cross-entropy \<open>nn.CrossEntropyLoss()\<close>, \<open>torch.zeros\<close> and \<open>torch.ones\<close> of a
  length with \<open>dtype=torch.long\<close>, \<open>len\<close>, \<open>argmax(1)\<close>, and what
  \<open>Accuracy.compute()\<close> makes of the \<open>(preds, target)\<close> updates since the last
  reset. \<open>X.to(self.device)\<close> is \<open>X\<close> on another device, the same tensor value.
\<close>

record 't torch =
  forward :: "module_key \<Rightarrow> 't \<Rightarrow> 't"
  cross_entropy :: "'t \<Rightarrow> 't \<Rightarrow> 't"
  zeros :: "nat \<Rightarrow> 't"
  ones :: "nat \<Rightarrow> 't"
  len :: "'t \<Rightarrow> nat"
  argmax1 :: "'t \<Rightarrow> 't"
  accuracy :: "('t \<times> 't) list \<Rightarrow> 't"

text \<open>The value that the eager evaluation of PyTorch gives a tensor.\<close>

fun tensor_value :: "('t::real_vector) torch \<Rightarrow> 't tensor \<Rightarrow> 't" where
  "tensor_value T (Input x) = x"
| "tensor_value T (Zeros n) = zeros T n"
| "tensor_value T (Ones n) = ones T n"
| "tensor_value T (Module k x) = forward T k (tensor_value T x)"
| "tensor_value T (GradientReverse x a) = GradientReverse_apply (tensor_value T x) a"
| "tensor_value T (Loss_fn x y) = cross_entropy T (tensor_value T x) (tensor_value T y)"
| "tensor_value T (Add x y) = tensor_value T x + tensor_value T y"
| "tensor_value T (Mul a x) = a *\<^sub>R tensor_value T x"

text \<open>
  What a step does to the world outside the trainer object, in order:
  the calls of the optimizer and of autograd, and the lines logged.
  \<open>Optimizer_step ks\<close> is the step of an optimizer built over the parameters
  of the modules \<open>ks\<close>; \<open>Log l a b n\<close> is the line that shows the loss \<open>l\<close>,
  the accuracy \<open>a\<close> and the position \<open>b/n\<close>.
\<close>

datatype 't effect =
    Zero_grad
  | Backward "'t tensor"
  | Optimizer_step "module_key list"
  | Log 't 't int int

text \<open>
  The fields of the trainer that \<open>__init__\<close> and \<open>on_training_step\<close> use.
  \<open>optimizer\<close> is the chain of parameters given to Adam; a metric
  (\<open>MeanMetric\<close>, \<open>Accuracy\<close>) is the list of its updates since the last reset.
  \<open>world_size\<close> and \<open>is_main\<close> are properties of the base trainer.
\<close>

record 't trainer =
  lr :: real
  weight_decay :: real
  lambd :: real
  adaption_factor :: bool
  num_classes :: int
  optimizer :: "module_key list"
  train_loss :: "'t list"
  train_accuracy :: "('t \<times> 't) list"
  val_loss :: "'t list"
  val_accuracy :: "('t \<times> 't) list"
  test_loss :: "'t list"
  test_accuracy :: "('t \<times> 't) list"
  world_size :: int
  is_main :: bool

text \<open>
  What \<open>__init__\<close> calls outside the class, with the exceptions these calls
  raise. \<open>torch.optim.Adam\<close> raises \<open>ValueError\<close> for a negative learning
  rate, for a negative weight decay and for an empty list of parameters;
  \<open>has_parameters\<close> tells the modules whose \<open>parameters()\<close> is not empty, and
  the optimizer is kept as the chain of modules it was built over.
  \<open>torchmetrics.Accuracy\<close> with \<open>task='multiclass'\<close> raises \<open>ValueError\<close> for
  fewer than two classes, and is the empty list of updates otherwise.
\<close>

definition Adam ::
  "(module_key \<Rightarrow> bool) \<Rightarrow> module_key list \<Rightarrow> real \<Rightarrow> real \<Rightarrow> error + module_key list" where
  "Adam has_parameters chain lr' weight_decay' =
     (if \<not> 0 \<le> lr' then Inl ValueError
      else if \<not> 0 \<le> weight_decay' then Inl ValueError
      else if \<not> list_ex has_parameters chain then Inl ValueError
      else Inr chain)"

definition Accuracy :: "int \<Rightarrow> error + ('t \<times> 't) list" where
  "Accuracy num_classes' = (if num_classes' < 2 then Inl ValueError else Inr [])"

text \<open>
  \<open>__init__\<close>. The \<open>__init__\<close> of the base trainer is not in the source
  files: \<open>base\<close> is its outcome, the exception it raises or the
  \<open>world_size\<close> and \<open>is_main\<close> it leaves. \<open>num_classes\<close> is \<open>None\<close> when it is
  not passed, and \<open>classifier_num_classes\<close> is \<open>None\<close> when
  \<open>hasattr(classifier, 'num_classes')\<close> is false, the value of the attribute
  otherwise. \<open>MeanMetric()\<close> is the empty list of updates.
\<close>

definition DANNTrainer_init ::
  "error + (int \<times> bool) \<Rightarrow> (module_key \<Rightarrow> bool) \<Rightarrow> int option
     \<Rightarrow> real \<Rightarrow> bool \<Rightarrow> int option \<Rightarrow> real \<Rightarrow> real \<Rightarrow> error + 't trainer" where
  "DANNTrainer_init base has_parameters classifier_num_classes
       lambd' adaption_factor' num_classes' lr' weight_decay' =
     bind base (\<lambda>(ws, main).
     bind (case num_classes' of
             Some n \<Rightarrow> Inr n
           | None \<Rightarrow>
               (case classifier_num_classes of
                  Some n \<Rightarrow> Inr n
                | None \<Rightarrow> Inl ValueError)) (\<lambda>n.
     bind (Adam has_parameters [extractor, classifier, domain_classifier]
             lr' weight_decay') (\<lambda>adam.
     bind (Accuracy n) (\<lambda>train_accuracy'.
     bind (Accuracy n) (\<lambda>val_accuracy'.
     bind (Accuracy n) (\<lambda>test_accuracy'.
     Inr \<lparr>lr = lr', weight_decay = weight_decay', lambd = lambd',
          adaption_factor = adaption_factor', num_classes = n,
          optimizer = adam,
          train_loss = [], train_accuracy = train_accuracy',
          val_loss = [], val_accuracy = val_accuracy',
          test_loss = [], test_accuracy = test_accuracy',
          world_size = ws, is_main = main\<rparr>))))))"

text \<open>Python's \<open>/\<close> on floats and \<open>%\<close> on ints raise on a zero divisor.\<close>

definition truediv :: "real \<Rightarrow> real \<Rightarrow> error + real" where
  "truediv a b = (if b = 0 then Inl ZeroDivisionError else Inr (a / b))"

definition py_mod :: "int \<Rightarrow> int \<Rightarrow> error + int" where
  "py_mod a b = (if b = 0 then Inl ZeroDivisionError else Inr (a mod b))"

text \<open>
  The reversal coefficient \<open>gamma\<close> of \<open>on_training_step\<close>; floats are
  the reals.
\<close>

definition reversal_coefficient :: "bool \<Rightarrow> int \<Rightarrow> int \<Rightarrow> int \<Rightarrow> int \<Rightarrow> error + real" where
  "reversal_coefficient adaption batch_id num_batches epoch_id num_epochs =
     (if adaption then
        bind (truediv (real_of_int (batch_id + epoch_id * num_batches))
                (real_of_int num_epochs)) (\<lambda>q.
        bind (truediv q (real_of_int num_batches)) (\<lambda>p.
        Inr (2 / (1 + exp (- 10 * p)) - 1)))
      else Inr 1.0)"

text \<open>\<open>MeanMetric.compute()\<close>: the mean of the values since the last reset.\<close>

definition MeanMetric_compute :: "('t::real_vector) list \<Rightarrow> 't" where
  "MeanMetric_compute vs = (1 / real (length vs)) *\<^sub>R sum_list vs"

text \<open>
  \<open>on_training_step\<close>. A batch is the tuple of tensors that a loader
  yields. The result is the trainer after the step and the effects of the
  step.
\<close>

definition on_training_step ::
  "('t::real_vector) torch \<Rightarrow> 't trainer \<Rightarrow> 't list \<Rightarrow> 't list
     \<Rightarrow> int \<Rightarrow> int \<Rightarrow> int \<Rightarrow> int \<Rightarrow> error + ('t trainer \<times> 't effect list)" where
  "on_training_step T self source_loader target_loader
       batch_id num_batches epoch_id num_epochs =
     (let self = self\<lparr>train_accuracy := []\<rparr>;
          self = self\<lparr>train_loss := []\<rparr>
      in
      bind (getitem source_loader 0) (\<lambda>X_source.
      bind (getitem source_loader 1) (\<lambda>y_source.
      bind (getitem target_loader 0) (\<lambda>X_target.
      let X_source_feat = Module extractor (Input X_source);
          y_source_pred = Module classifier X_source_feat
      in
      bind (reversal_coefficient (adaption_factor self)
              batch_id num_batches epoch_id num_epochs) (\<lambda>gamma.
      let X_source_rev = GradientReverse X_source_feat gamma;
          y_source_disc = Module domain_classifier X_source_rev;
          X_target_feat = Module extractor (Input X_target);
          X_target_rev = GradientReverse X_target_feat gamma;
          y_target_disc = Module domain_classifier X_target_rev;
          task_loss = Loss_fn y_source_pred (Input y_source);
          disc_loss_source =
            Loss_fn y_source_disc (Zeros (len T (tensor_value T y_source_disc)));
          disc_loss_target =
            Loss_fn y_target_disc (Ones (len T (tensor_value T y_target_disc)));
          dann_loss = Mul (lambd self) (Add disc_loss_source disc_loss_target);
          loss = Add task_loss dann_loss;
          effects = [Zero_grad, Backward loss, Optimizer_step (optimizer self)];
          log_step = \<lceil>real_of_int num_batches / 5\<rceil>
      in
      bind (py_mod batch_id log_step) (\<lambda>r.
      if r = 0 then
        let self = self\<lparr>train_loss := train_loss self @ [tensor_value T loss]\<rparr>;
            self = self\<lparr>train_accuracy := train_accuracy self @
                     [(argmax1 T (tensor_value T y_source_pred), y_source)]\<rparr>;
            train_loss' = MeanMetric_compute (train_loss self);
            train_accuracy' = 100 *\<^sub>R accuracy T (train_accuracy self);
            batch_id = batch_id * world_size self;
            num_batches = num_batches * world_size self
        in Inr (self, effects @
                  (if is_main self
                   then [Log train_loss' train_accuracy' batch_id num_batches]
                   else []))
      else Inr (self, effects)))))))"


section \<open>amigos.py: AMIGOSDataset\<close>

text \<open>
  A row of the metadata table as a dict is the list of its (column, value)
  pairs in column order, and \<open>self.info\<close> is the list of the rows. The
  variable \<open>info\<close> of \<open>__getitem__\<close> holds the row, or whatever the label
  transform made of it: a list, a dict, or another object.
\<close>

type_synonym 'v row = "(string \<times> 'v) list"

datatype 'v info = Info_list "'v list" | Info_dict "'v row" | Info_other 'v

record ('s, 'v) AMIGOSDataset =
  root_path :: string
  chunk_size :: int
  overlap :: int
  channel_num :: int
  trial_num :: int
  online_transform :: "('s \<Rightarrow> 's) option"
  offline_transform :: "('s \<Rightarrow> 's) option"
  label_transform :: "('v row \<Rightarrow> 'v info) option"
  io_path :: string
  verbose :: bool
  info :: "'v row list"
  eeg_io :: "string \<rightharpoonup> 's"

text \<open>
  Modelled from the spec: \<open>read_eeg\<close> of the cache store, which is not in
  the source files. The store is a mapping from clip identifier to array,
  written once and read many times; reading an identifier that was never
  written is an error.
\<close>

definition read_eeg :: "(string \<rightharpoonup> 's) \<Rightarrow> string \<Rightarrow> error + 's" where
  "read_eeg store key = (case store key of None \<Rightarrow> Inl CacheMiss | Some eeg \<Rightarrow> Inr eeg)"

text \<open>\<open>d[key]\<close> on a dict.\<close>

definition dict_get :: "'v row \<Rightarrow> string \<Rightarrow> error + 'v" where
  "dict_get d key = (case map_of d key of None \<Rightarrow> Inl KeyError | Some v \<Rightarrow> Inr v)"

text \<open>
  \<open>__getitem__\<close>. \<open>str\<close> is Python's \<open>str\<close> on the values of the table. The
  result tuple \<open>(eeg, *labels)\<close> is the pair of \<open>eeg\<close> and the list of the
  labels; the dataset is returned with it, as the method leaves it.
\<close>

definition AMIGOSDataset_getitem ::
  "('v \<Rightarrow> string) \<Rightarrow> ('s, 'v) AMIGOSDataset \<Rightarrow> int
     \<Rightarrow> error + (('s \<times> 'v list) \<times> ('s, 'v) AMIGOSDataset)" where
  "AMIGOSDataset_getitem str self index =
     bind (getitem (info self) index) (\<lambda>row.
     bind (dict_get row ''clip_id'') (\<lambda>clip_id.
     let eeg_index = str clip_id in
     bind (read_eeg (eeg_io self) eeg_index) (\<lambda>eeg.
     let eeg = (case online_transform self of Some f \<Rightarrow> f eeg | None \<Rightarrow> eeg);
         info = (case label_transform self of Some g \<Rightarrow> g row | None \<Rightarrow> Info_dict row)
     in case info of
          Info_list xs \<Rightarrow> Inr ((eeg, xs), self)
        | Info_dict d \<Rightarrow> Inr ((eeg, map snd d), self)
        | Info_other v \<Rightarrow> Inr ((eeg, [v]), self))))"

text \<open>
  The dataset that the constructor leaves: every row has a clip identifier
  and the store has an array under it.
\<close>

definition cached :: "('v \<Rightarrow> string) \<Rightarrow> ('s, 'v) AMIGOSDataset \<Rightarrow> bool" where
  "cached str self =
     list_all (\<lambda>row. case map_of row ''clip_id'' of
                        None \<Rightarrow> False
                      | Some c \<Rightarrow> eeg_io self (str c) \<noteq> None) (info self)"

text \<open>The row that \<open>iloc[index]\<close> selects when \<open>index\<close> is in range.\<close>

definition iloc :: "'a list \<Rightarrow> int \<Rightarrow> 'a" where
  "iloc rows index = rows ! nat (if index < 0 then int (length rows) + index else index)"

definition valid_index :: "'a list \<Rightarrow> int \<Rightarrow> bool" where
  "valid_index rows index = (- int (length rows) \<le> index \<and> index < int (length rows))"

subsection \<open>Construction and the cache\<close>

text \<open>
  What is on disk: under each cache path that exists, the store of the
  chunks and the metadata table.
\<close>

record ('s, 'v) cache_dir =
  chunks :: "string \<rightharpoonup> 's"
  table :: "'v row list"

type_synonym ('s, 'v) disk = "string \<rightharpoonup> ('s, 'v) cache_dir"

text \<open>
  Modelled from the spec: \<open>amigos_constructor\<close>, which is not in the source
  files. Given a root directory and the chunking parameters it produces a
  persisted set of (chunk, metadata) pairs, keyed by clip identifier, once;
  with an existing cache directory it is a no-op that reuses the cache.
  \<open>slice\<close> stands for reading the files under the root and slicing them:
  the (clip identifier, chunk, metadata row) triples of a configuration. The
  offline transform, when there is one, is applied to each chunk before it is
  written. The result is the disk and the clip identifiers of the chunks
  written by this call, in order.
\<close>

definition amigos_constructor ::
  "(string \<Rightarrow> int \<Rightarrow> int \<Rightarrow> int \<Rightarrow> int \<Rightarrow> (string \<times> 's \<times> 'v row) list)
     \<Rightarrow> string \<Rightarrow> int \<Rightarrow> int \<Rightarrow> int \<Rightarrow> int \<Rightarrow> ('s \<Rightarrow> 's) option \<Rightarrow> string
     \<Rightarrow> ('s, 'v) disk \<Rightarrow> ('s, 'v) disk \<times> string list" where
  "amigos_constructor slice root_path' chunk_size' overlap' channel_num' trial_num'
       transform io_path' disk =
     (case disk io_path' of
        Some _ \<Rightarrow> (disk, [])
      | None \<Rightarrow>
          (let triples = slice root_path' chunk_size' overlap' channel_num' trial_num';
               written = map (\<lambda>(clip_id, eeg, row).
                  (clip_id, (case transform of Some f \<Rightarrow> f eeg | None \<Rightarrow> eeg), row)) triples;
               dir = \<lparr>chunks = map_of (map (\<lambda>(clip_id, eeg, row). (clip_id, eeg)) written),
                      table = map (\<lambda>(clip_id, eeg, row). row) written\<rparr>
           in (disk(io_path' \<mapsto> dir), map fst written)))"

text \<open>
  \<open>__init__\<close>: the call of \<open>amigos_constructor\<close>, then
  \<open>super().__init__(io_path)\<close>, then the fields. Modelled from the spec:
  the base dataset's \<open>__init__\<close>, which is not in the source files, opens the
  table and the store of the cache directory. \<open>num_worker\<close> and \<open>verbose\<close>
  change how the constructor runs and what it prints, not what it writes.
  The result is the dataset, the disk, and the chunks written.
\<close>

definition AMIGOSDataset_init ::
  "(string \<Rightarrow> int \<Rightarrow> int \<Rightarrow> int \<Rightarrow> int \<Rightarrow> (string \<times> 's \<times> 'v row) list)
     \<Rightarrow> string \<Rightarrow> int \<Rightarrow> int \<Rightarrow> int \<Rightarrow> int
     \<Rightarrow> ('s \<Rightarrow> 's) option \<Rightarrow> ('s \<Rightarrow> 's) option \<Rightarrow> ('v row \<Rightarrow> 'v info) option
     \<Rightarrow> string \<Rightarrow> bool
     \<Rightarrow> ('s, 'v) disk \<Rightarrow> (error + ('s, 'v) AMIGOSDataset) \<times> ('s, 'v) disk \<times> string list" where
  "AMIGOSDataset_init slice root_path' chunk_size' overlap' channel_num' trial_num'
       online_transform' offline_transform' label_transform' io_path' verbose' disk =
     (let (disk, written) =
            amigos_constructor slice root_path' chunk_size' overlap' channel_num' trial_num'
              offline_transform' io_path' disk
      in case disk io_path' of
           None \<Rightarrow> (Inl CacheMiss, disk, written)
         | Some dir \<Rightarrow>
             (Inr \<lparr>root_path = root_path', chunk_size = chunk_size', overlap = overlap',
                   channel_num = channel_num', trial_num = trial_num',
                   online_transform = online_transform',
                   offline_transform = offline_transform',
                   label_transform = label_transform',
                   io_path = io_path', verbose = verbose',
                   info = table dir, eeg_io = chunks dir\<rparr>,
              disk, written))"

section \<open>The state of a cycle after \<open>k\<close> elements\<close>

text \<open>
  \<open>cycle_at ys k\<close> is the state of \<open>cycle(ys)\<close> once \<open>k\<close> elements have been
  taken from it: in the first pass while \<open>k \<le> length ys\<close>, replaying after.
\<close>

definition cycle_at :: "'a list \<Rightarrow> nat \<Rightarrow> 'a cycle" where
  "cycle_at ys k =
     (if k \<le> length ys then (drop k ys, take k ys, [])
      else ([], ys, drop (Suc ((k - 1) mod length ys)) ys))"


section \<open>The loss of a step in the words of the specification\<close>

text \<open>
  The domain loss of a batch \<open>X\<close>: the cross-entropy of the domain classifier,
  applied through gradient reversal to the features of \<open>X\<close>, against the
  constant class index that \<open>const\<close> repeats once per row of the output.
\<close>

definition domain_output :: "real \<Rightarrow> 't \<Rightarrow> 't tensor" where
  "domain_output gamma X =
     Module domain_classifier (GradientReverse (Module extractor (Input X)) gamma)"

definition domain_loss ::
  "('t::real_vector) torch \<Rightarrow> real \<Rightarrow> 't \<Rightarrow> (nat \<Rightarrow> 't tensor) \<Rightarrow> 't tensor" where
  "domain_loss T gamma X const =
     Loss_fn (domain_output gamma X)
       (const (len T (tensor_value T (domain_output gamma X))))"

text \<open>The task loss: the cross-entropy of the classifier on the source features
  against the source labels.\<close>

definition task_loss :: "'t \<Rightarrow> 't \<Rightarrow> 't tensor" where
  "task_loss X y = Loss_fn (Module classifier (Module extractor (Input X))) (Input y)"

text \<open>The total loss: the task loss plus \<open>lambd\<close> times the sum of the domain
  loss of the source batch against 0 and of the target batch against 1.\<close>

definition total_loss ::
  "('t::real_vector) torch \<Rightarrow> real \<Rightarrow> real \<Rightarrow> 't \<Rightarrow> 't \<Rightarrow> 't \<Rightarrow> 't tensor" where
  "total_loss T lam gamma X_source y_source X_target =
     Add (task_loss X_source y_source)
       (Mul lam (Add (domain_loss T gamma X_source Zeros)
                     (domain_loss T gamma X_target Ones)))"

text \<open>The schedule of the coefficient in the words of the specification.\<close>

definition progress :: "int \<Rightarrow> int \<Rightarrow> int \<Rightarrow> int \<Rightarrow> real" where
  "progress batch_id num_batches epoch_id num_epochs =
     real_of_int (batch_id + epoch_id * num_batches) / real_of_int (num_epochs * num_batches)"

definition schedule :: "real \<Rightarrow> real" where
  "schedule p = 2 / (1 + exp (- 10 * p)) - 1"

text \<open>The steps on which \<open>on_training_step\<close> samples the metrics.\<close>

definition sampled :: "int \<Rightarrow> int \<Rightarrow> bool" where
  "sampled batch_id num_batches = (batch_id mod \<lceil>real_of_int num_batches / 5\<rceil> = 0)"

fun is_log :: "'t effect \<Rightarrow> bool" where
  "is_log (Log l a b n) = True"
| "is_log _ = False"

section \<open>A small trainer and a small dataset\<close>

text \<open>
  Concrete values on which the theorems below are instantiated. Tensors are
  real numbers; the extractor doubles, the classifier adds one, the domain
  classifier triples, and the loss of an output against a target is their
  difference.
\<close>

definition toy_torch :: "real torch" where
  "toy_torch =
     \<lparr>forward = (\<lambda>k x. case k of extractor \<Rightarrow> 2 * x
                               | classifier \<Rightarrow> x + 1
                               | domain_classifier \<Rightarrow> 3 * x),
      cross_entropy = (\<lambda>x y. x - y),
      zeros = (\<lambda>n. 0),
      ones = (\<lambda>n. 1),
      len = (\<lambda>x. 1),
      argmax1 = (\<lambda>x. x),
      accuracy = (\<lambda>us. 1)\<rparr>"

definition toy_trainer :: "real trainer" where
  "toy_trainer =
     \<lparr>lr = 1 / 10000, weight_decay = 0, lambd = 1 / 2,
      adaption_factor = True, num_classes = 2,
      optimizer = [extractor, classifier, domain_classifier],
      train_loss = [7], train_accuracy = [(1, 1)],
      val_loss = [], val_accuracy = [],
      test_loss = [], test_accuracy = [],
      world_size = 1, is_main = True\<rparr>"

text \<open>
  A dataset of two chunks of one subject; signals are lists of reals and the
  values of the table are strings, so that \<open>str\<close> is the identity. The online
  transform doubles each sample and the label transform selects the valence.
\<close>

definition toy_rows :: "string row list" where
  "toy_rows =
     [(''clip_id'', ''s01_0''), (''valence'', ''7'')] #
     [(''clip_id'', ''s01_1''), (''valence'', ''3'')] # []"

definition toy_dataset :: "(real list, string) AMIGOSDataset" where
  "toy_dataset =
     \<lparr>root_path = ''./data_preprocessed'', chunk_size = 128, overlap = 0,
      channel_num = 14, trial_num = 16,
      online_transform = Some (map (\<lambda>x. 2 * x)),
      offline_transform = None,
      label_transform = Some (\<lambda>row. Info_list (map snd (tl row))),
      io_path = ''./io/amigos'', verbose = True,
      info = toy_rows,
      eeg_io = [''s01_0'' \<mapsto> [1, 2], ''s01_1'' \<mapsto> [3, 4]]\<rparr>"

definition toy_slice ::
  "string \<Rightarrow> int \<Rightarrow> int \<Rightarrow> int \<Rightarrow> int \<Rightarrow> (string \<times> real list \<times> string row) list" where
  "toy_slice rp cs ov cn tn =
     [(''s01_0'', [1, 2], [(''clip_id'', ''s01_0''), (''valence'', ''7'')]),
      (''s01_1'', [3, 4], [(''clip_id'', ''s01_1''), (''valence'', ''3'')])]"

section \<open>Basic facts\<close>

lemma getitem_0: "getitem (x # xs) 0 = Inr x"
  by (simp add: getitem_def)

lemma getitem_1: "getitem (x # y # xs) 1 = Inr y"
  by (simp add: getitem_def)

lemma bind_Inr: "bind (Inr v) f = f v"
  by (simp add: bind_def)

lemma bind_Inl: "bind (Inl e) f = Inl e"
  by (simp add: bind_def)

lemma getitem_valid: "valid_index xs i \<Longrightarrow> getitem xs i = Inr (iloc xs i)"
  by (auto simp: valid_index_def getitem_def iloc_def)

lemma iloc_in_set: "valid_index xs i \<Longrightarrow> iloc xs i \<in> set xs"
  by (auto simp: valid_index_def iloc_def intro!: nth_mem)

section \<open>Gradient reversal\<close>

text \<open>
  C1. For every tensor \<open>x\<close> and scalar \<open>alpha\<close>, the forward pass of the
  gradient-reversal operation returns \<open>x\<close> unchanged, whatever \<open>alpha\<close> is, and
  the backward pass maps an incoming gradient \<open>g\<close> to \<open>-alpha * g\<close>, with no
  gradient for \<open>alpha\<close>.
\<close>

theorem GradientReverse_identity_and_reversal:
  "snd (GradientReverse_forward c x a) = x
   \<and> GradientReverse_apply x a = x
   \<and> GradientReverse_backward (fst (GradientReverse_forward c x a)) g = ((- a) *\<^sub>R g, None)"
  by (simp add: GradientReverse_forward_def GradientReverse_apply_def
      GradientReverse_backward_def)

section \<open>The pairing of the loaders\<close>

text \<open>
  After \<open>k\<close> elements a cycle over a non-empty list yields element
  \<open>k mod length\<close> next.
\<close>

lemma cycle_at_0: "cycle_at ys 0 = cycle ys"
  by (simp add: cycle_at_def cycle_def)

lemma cycle_next_at:
  assumes "ys \<noteq> []"
  shows "cycle_next (cycle_at ys k) = Some (ys ! (k mod length ys), cycle_at ys (Suc k))"
proof -
  let ?n = "length ys"
  from assms have n: "0 < ?n" by simp
  consider (a) "k < ?n" | (b) "k = ?n" | (c) "?n < k" "Suc ((k - 1) mod ?n) < ?n"
    | (d) "?n < k" "Suc ((k - 1) mod ?n) = ?n"
    using n by (metis Suc_lessI linorder_neqE_nat mod_less_divisor)
  then show ?thesis
  proof cases
    case a
    then have "drop k ys = ys ! k # drop (Suc k) ys"
      by (simp add: Cons_nth_drop_Suc)
    with a show ?thesis
      by (simp add: cycle_at_def take_Suc_conv_app_nth)
  next
    case b
    obtain y r where ys: "ys = y # r" using assms by (cases ys) auto
    with b show ?thesis
      by (simp add: cycle_at_def)
  next
    case c
    let ?j = "Suc ((k - 1) mod ?n)"
    have kj: "k mod ?n = ?j"
      using c n by (metis Suc_diff_1 less_nat_zero_code mod_Suc not_gr_zero not_less_iff_gr_or_eq)
    have "drop ?j ys = ys ! ?j # drop (Suc ?j) ys"
      using c by (simp add: Cons_nth_drop_Suc)
    with c kj show ?thesis
      by (simp add: cycle_at_def)
  next
    case d
    have k0: "k mod ?n = 0"
      using d n by (metis Suc_diff_1 less_nat_zero_code mod_Suc not_gr_zero)
    obtain y r where ys: "ys = y # r" using assms by (cases ys) auto
    from d k0 ys show ?thesis
      by (simp add: cycle_at_def)
  qed
qed

lemma zip_list_cycle_at:
  "ys \<noteq> [] \<Longrightarrow>
   zip_list_cycle xs (cycle_at ys k) =
     zip xs (map (\<lambda>i. ys ! (i mod length ys)) [k..<k + length xs])"
proof (induction xs arbitrary: k)
  case Nil
  then show ?case by simp
next
  case (Cons x xs)
  have "[k..<k + length (x # xs)] = k # [Suc k..<Suc k + length xs]"
    by (subst upt_rec) simp
  with Cons show ?case
    by (simp add: cycle_next_at)
qed

lemma zip_cycle_list_Nil: "zip_cycle_list c [] = []"
  by (simp split: option.splits)

lemma zip_cycle_list_Cons:
  "zip_cycle_list c (y # ys) =
     (case cycle_next c of None \<Rightarrow> [] | Some (x, c') \<Rightarrow> (x, y) # zip_cycle_list c' ys)"
  by (simp split: option.splits)

declare zip_cycle_list.simps [simp del]

lemma zip_cycle_list_at:
  "xs \<noteq> [] \<Longrightarrow>
   zip_cycle_list (cycle_at xs k) ys =
     zip (map (\<lambda>i. xs ! (i mod length xs)) [k..<k + length ys]) ys"
proof (induction ys arbitrary: k)
  case Nil
  then show ?case by (simp add: zip_cycle_list_Nil)
next
  case (Cons y ys)
  have "[k..<k + length (y # ys)] = k # [Suc k..<Suc k + length ys]"
    by (subst upt_rec) simp
  with Cons show ?case
    by (simp add: zip_cycle_list_Cons cycle_next_at)
qed

lemma zip_list_cycle_empty: "zip_list_cycle xs (cycle []) = []"
  by (cases xs) (simp_all add: cycle_def)

lemma zip_cycle_list_empty: "zip_cycle_list (cycle []) ys = []"
  by (cases ys) (simp_all add: cycle_def zip_cycle_list_Nil zip_cycle_list_Cons)

lemma zip_loader_paired:
  assumes "s \<noteq> []" "t \<noteq> []"
  shows "zip_loader s t =
     map (\<lambda>i. (s ! (i mod length s), t ! (i mod length t)))
       [0..<max (length s) (length t)]"
proof (cases "length s > length t")
  case True
  then have m: "max (length s) (length t) = length s" by simp
  have "zip_loader s t = zip s (map (\<lambda>i. t ! (i mod length t)) [0..<length s])"
    using True assms zip_list_cycle_at [of t s 0] by (simp add: zip_loader_def cycle_at_0)
  also have "\<dots> = map (\<lambda>i. (s ! (i mod length s), t ! (i mod length t))) [0..<length s]"
    by (rule nth_equalityI) simp_all
  finally show ?thesis by (simp only: m)
next
  case False
  then have m: "max (length s) (length t) = length t" by simp
  have "zip_loader s t = zip (map (\<lambda>i. s ! (i mod length s)) [0..<length t]) t"
    using False assms zip_cycle_list_at [of s 0 t] by (simp add: zip_loader_def cycle_at_0)
  also have "\<dots> = map (\<lambda>i. (s ! (i mod length s), t ! (i mod length t))) [0..<length t]"
    by (rule nth_equalityI) simp_all
  finally show ?thesis by (simp only: m)
qed

lemma enumerate_py_map:
  "enumerate_py (map f [0..<n]) = map (\<lambda>i. (int i, f i)) [0..<n]"
  unfolding enumerate_py_def by (rule nth_equalityI) simp_all

lemma zip_loader_empty_target: "length s > 0 \<Longrightarrow> zip_loader s [] = []"
  by (simp add: zip_loader_def zip_list_cycle_empty)

lemma zip_loader_empty_source: "zip_loader [] t = []"
  by (simp add: zip_loader_def zip_cycle_list_empty)

text \<open>
  With the hooks that record, the state after the epoch is the list of the
  steps executed: one per pair of \<open>zip_loader\<close>, in order.
\<close>

lemma training_steps_recording:
  "training_steps recording_hooks n t ne acc calls =
     Inr (acc @ map (\<lambda>(b, s, u). (b, n, s, u)) calls)"
  by (induction calls arbitrary: acc)
     (auto simp: recording_hooks_def bind_def)

lemma training_epoch_recording:
  "training_epoch recording_hooks [] s u t ne =
     Inr (map (\<lambda>(b, x, y). (b, int (max (length s) (length u)), x, y))
            (enumerate_py (zip_loader s u)))"
  unfolding training_epoch_def Let_def training_steps_recording
  by (simp add: recording_hooks_def bind_def)

text \<open>
  C3 as stated, for every pair of loaders, fails when one loader is empty and
  the other is not: with a source of 10 batches and an empty target,
  \<open>zip(source_loader, cycle(target_loader))\<close> is empty and the epoch executes
  no training step, where the maximum of the two lengths is 10.
\<close>

theorem training_epoch_empty_target_counterexample:
  "training_epoch recording_hooks [] [0, 1, 2, 3, 4, 5, 6, 7, 8, 9 :: nat] [] 0 1 = Inr []
   \<and> length ([] :: (int \<times> int \<times> nat \<times> nat) list)
       \<noteq> max (length [0, 1, 2, 3, 4, 5, 6, 7, 8, 9 :: nat]) (length ([] :: nat list))"
  by (simp add: training_epoch_recording zip_loader_empty_target enumerate_py_def)

text \<open>
  C3, amended. For every pair of source and target loaders of which neither
  is empty, or both are, one training epoch of \<open>fit\<close> executes exactly
  \<open>max(len(source_loader), len(target_loader))\<close> training steps: step \<open>i\<close>
  has \<open>batch_id = i\<close>, that maximum as \<open>num_batches\<close>, and batch
  \<open>i mod len\<close> of each loader, so the shorter loader is cycled from its
  start. With source length 10 and target length 4 an epoch runs exactly 10
  steps that pair the target batches in the order 0,1,2,3,0,1,2,3,0,1.
\<close>

theorem training_epoch_pairs_loaders:
  "((source_loader = [] \<longleftrightarrow> target_loader = []) \<longrightarrow>
      training_epoch recording_hooks [] source_loader target_loader t num_epochs =
        Inr (map (\<lambda>i. (int i,
                        int (max (length source_loader) (length target_loader)),
                        source_loader ! (i mod length source_loader),
                        target_loader ! (i mod length target_loader)))
               [0..<max (length source_loader) (length target_loader)]))
   \<and> training_epoch recording_hooks [] [s0, s1, s2, s3, s4, s5, s6, s7, s8, s9]
         [t0, t1, t2, t3] t num_epochs =
        Inr [(0, 10, s0, t0), (1, 10, s1, t1), (2, 10, s2, t2), (3, 10, s3, t3),
             (4, 10, s4, t0), (5, 10, s5, t1), (6, 10, s6, t2), (7, 10, s7, t3),
             (8, 10, s8, t0), (9, 10, s9, t1)]"
proof (intro conjI impI)
  assume e: "source_loader = [] \<longleftrightarrow> target_loader = []"
  let ?n = "max (length source_loader) (length target_loader)"
  show "training_epoch recording_hooks [] source_loader target_loader t num_epochs =
        Inr (map (\<lambda>i. (int i, int ?n,
                        source_loader ! (i mod length source_loader),
                        target_loader ! (i mod length target_loader))) [0..<?n])"
  proof (cases "source_loader = []")
    case True
    with e show ?thesis
      by (simp add: training_epoch_recording zip_loader_empty_source enumerate_py_def)
  next
    case False
    with e have "target_loader \<noteq> []" by simp
    with False show ?thesis
      by (simp add: training_epoch_recording zip_loader_paired enumerate_py_map o_def)
  qed
next
  show "training_epoch recording_hooks [] [s0, s1, s2, s3, s4, s5, s6, s7, s8, s9]
         [t0, t1, t2, t3] t num_epochs =
        Inr [(0, 10, s0, t0), (1, 10, s1, t1), (2, 10, s2, t2), (3, 10, s3, t3),
             (4, 10, s4, t0), (5, 10, s5, t1), (6, 10, s6, t2), (7, 10, s7, t3),
             (8, 10, s8, t0), (9, 10, s9, t1)]"
    by (simp add: training_epoch_recording zip_loader_def cycle_def enumerate_py_def upt_rec)
qed

text \<open>
A source of three batches and a target of two.
\<close>

theorem training_epoch_pairs_loaders_witness:
  "(([10, 20, 30 :: nat] = []) \<longleftrightarrow> ([7, 8 :: nat] = []))
   \<and> training_epoch recording_hooks [] [10, 20, 30 :: nat] [7, 8] 0 1 =
       Inr [(0, 3, 10, 7), (1, 3, 20, 8), (2, 3, 30, 7)]"
  using training_epoch_pairs_loaders [of "[10, 20, 30 :: nat]" "[7, 8]" 0 1, THEN conjunct1]
  by (simp add: upt_rec)

section \<open>The reversal coefficient\<close>

lemma truediv_Inr: "b \<noteq> 0 \<Longrightarrow> truediv a b = Inr (a / b)"
  by (simp add: truediv_def)

lemma reversal_coefficient_eq:
  assumes "num_batches \<noteq> 0" "num_epochs \<noteq> 0"
  shows "reversal_coefficient adaption batch_id num_batches epoch_id num_epochs =
     Inr (if adaption then schedule (progress batch_id num_batches epoch_id num_epochs) else 1)"
proof (cases adaption)
  case False
  then show ?thesis by (simp add: reversal_coefficient_def)
next
  case True
  let ?x = "real_of_int (batch_id + epoch_id * num_batches)"
  have p: "?x / real_of_int num_epochs / real_of_int num_batches =
           progress batch_id num_batches epoch_id num_epochs"
    by (simp add: progress_def)
  have ne: "real_of_int num_epochs \<noteq> 0" and nb: "real_of_int num_batches \<noteq> 0"
    using assms by simp_all
  show ?thesis
    unfolding reversal_coefficient_def
    by (simp only: True if_True truediv_Inr [OF ne] truediv_Inr [OF nb] bind_Inr p
        schedule_def [symmetric])
qed

lemma reversal_coefficient_defined:
  "num_batches \<noteq> 0 \<Longrightarrow> num_epochs \<noteq> 0 \<Longrightarrow>
   \<exists>gamma. reversal_coefficient adaption batch_id num_batches epoch_id num_epochs = Inr gamma"
  by (simp add: reversal_coefficient_eq)

text \<open>
  C4. With the adaptive schedule the reversal coefficient of a step is
  \<open>2/(1+exp(-10p)) - 1\<close>, where \<open>p = (batch_id + epoch_id * num_batches) /
  (num_epochs * num_batches)\<close> is \<open>progress\<close>; without it the coefficient is
  the constant 1. The adaptive coefficient is 0 at \<open>p = 0\<close> and
  \<open>2/(1+exp(-5)) - 1\<close> at \<open>p = 1/2\<close>. The numbers of batches and of epochs
  are not zero: \<open>fit\<close> runs a step only then, and the division raises otherwise.
\<close>

theorem reversal_coefficient_schedule:
  "(num_batches \<noteq> 0 \<and> num_epochs \<noteq> 0 \<longrightarrow>
      reversal_coefficient True batch_id num_batches epoch_id num_epochs =
        Inr (2 / (1 + exp (- 10 * progress batch_id num_batches epoch_id num_epochs)) - 1))
   \<and> reversal_coefficient False batch_id num_batches epoch_id num_epochs = Inr 1
   \<and> (num_batches \<noteq> 0 \<and> num_epochs \<noteq> 0
        \<and> progress batch_id num_batches epoch_id num_epochs = 0 \<longrightarrow>
      reversal_coefficient True batch_id num_batches epoch_id num_epochs = Inr 0)
   \<and> (num_batches \<noteq> 0 \<and> num_epochs \<noteq> 0
        \<and> progress batch_id num_batches epoch_id num_epochs = 1 / 2 \<longrightarrow>
      reversal_coefficient True batch_id num_batches epoch_id num_epochs =
        Inr (2 / (1 + exp (- 5)) - 1))"
proof (intro conjI impI)
  show "reversal_coefficient False batch_id num_batches epoch_id num_epochs = Inr 1"
    by (simp add: reversal_coefficient_def)
next
  assume "num_batches \<noteq> 0 \<and> num_epochs \<noteq> 0"
  then have "num_batches \<noteq> 0" and "num_epochs \<noteq> 0" by simp_all
  from reversal_coefficient_eq [OF this, of True batch_id epoch_id]
  show "reversal_coefficient True batch_id num_batches epoch_id num_epochs =
        Inr (2 / (1 + exp (- 10 * progress batch_id num_batches epoch_id num_epochs)) - 1)"
    by (simp only: if_True schedule_def)
next
  assume "num_batches \<noteq> 0 \<and> num_epochs \<noteq> 0
        \<and> progress batch_id num_batches epoch_id num_epochs = 0"
  then show "reversal_coefficient True batch_id num_batches epoch_id num_epochs = Inr 0"
    by (simp add: reversal_coefficient_eq schedule_def)
next
  assume "num_batches \<noteq> 0 \<and> num_epochs \<noteq> 0
        \<and> progress batch_id num_batches epoch_id num_epochs = 1 / 2"
  then show "reversal_coefficient True batch_id num_batches epoch_id num_epochs =
        Inr (2 / (1 + exp (- 5)) - 1)"
    by (simp add: reversal_coefficient_eq schedule_def)
qed

text \<open>
The first step and the middle step of one epoch of ten batches, and step 3 of
  the second of two epochs.
\<close>

theorem reversal_coefficient_schedule_witness:
  "(10::int) \<noteq> 0 \<and> (1::int) \<noteq> 0
   \<and> progress 0 10 0 1 = 0 \<and> reversal_coefficient True 0 10 0 1 = Inr 0
   \<and> progress 5 10 0 1 = 1 / 2
   \<and> reversal_coefficient True 5 10 0 1 = Inr (2 / (1 + exp (- 5)) - 1)
   \<and> progress 3 10 1 2 = 13 / 20
   \<and> reversal_coefficient True 3 10 1 2 = Inr (2 / (1 + exp (- 10 * (13 / 20))) - 1)"
  using reversal_coefficient_schedule [of 10 1 0 0]
        reversal_coefficient_schedule [of 10 1 5 0]
        reversal_coefficient_schedule [of 10 2 3 1]
  by (simp add: progress_def)

section \<open>The training step\<close>

lemma MeanMetric_compute_single: "MeanMetric_compute [v] = v"
  by (simp add: MeanMetric_compute_def)

lemma log_step_pos: "0 < n \<Longrightarrow> 0 < \<lceil>real_of_int n / 5\<rceil>"
  by (simp add: ceiling_less_iff)

lemma tensor_value_total_loss:
  "tensor_value T (total_loss T lam gamma Xs ys Xt) =
     cross_entropy T (forward T classifier (forward T extractor Xs)) ys
     + lam *\<^sub>R
        (cross_entropy T (forward T domain_classifier (forward T extractor Xs))
            (zeros T (len T (forward T domain_classifier (forward T extractor Xs))))
         + cross_entropy T (forward T domain_classifier (forward T extractor Xt))
            (ones T (len T (forward T domain_classifier (forward T extractor Xt)))))"
  by (simp add: total_loss_def task_loss_def domain_loss_def domain_output_def
      GradientReverse_apply_def GradientReverse_forward_def)

lemma on_training_step_unfold:
  assumes g: "reversal_coefficient (adaption_factor self) b n e ne = Inr gamma"
      and l: "\<lceil>real_of_int n / 5\<rceil> \<noteq> 0"
  shows "on_training_step T self (Xs # ys # rs) (Xt # rt) b n e ne =
     Inr (self\<lparr>train_accuracy :=
                 (if sampled b n
                  then [(argmax1 T (forward T classifier (forward T extractor Xs)), ys)]
                  else []),
               train_loss :=
                 (if sampled b n
                  then [tensor_value T (total_loss T (lambd self) gamma Xs ys Xt)]
                  else [])\<rparr>,
          [Zero_grad, Backward (total_loss T (lambd self) gamma Xs ys Xt),
           Optimizer_step (optimizer self)] @
          (if sampled b n \<and> is_main self
           then [Log (tensor_value T (total_loss T (lambd self) gamma Xs ys Xt))
                   (100 *\<^sub>R accuracy T
                      [(argmax1 T (forward T classifier (forward T extractor Xs)), ys)])
                   (b * world_size self) (n * world_size self)]
           else []))"
  using l
  by (simp add: on_training_step_def getitem_0 getitem_1 bind_Inr g py_mod_def Let_def
      sampled_def MeanMetric_compute_single total_loss_def task_loss_def domain_loss_def
      domain_output_def)

lemma Adam_Inr: "Adam hp chain r wd = Inr adam \<Longrightarrow> adam = chain"
  by (simp add: Adam_def split: if_splits)

lemma DANNTrainer_init_optimizer:
  assumes "DANNTrainer_init base hp cnc lam af nc r wd = Inr tr"
  shows "optimizer tr = [extractor, classifier, domain_classifier]"
proof -
  from assms obtain ws main n adam a1 a2 a3 where
    "Adam hp [extractor, classifier, domain_classifier] r wd = Inr adam"
    and "tr = \<lparr>lr = r, weight_decay = wd, lambd = lam,
          adaption_factor = af, num_classes = n,
          optimizer = adam,
          train_loss = [], train_accuracy = a1,
          val_loss = [], val_accuracy = a2,
          test_loss = [], test_accuracy = a3,
          world_size = ws, is_main = main\<rparr>"
    by (auto simp: DANNTrainer_init_def bind_def split: sum.splits prod.splits)
  then show ?thesis by (simp add: Adam_Inr)
qed

text \<open>
  C2. On every training step of a trainer that holds the optimizer its
  \<open>__init__\<close> built (a source batch of features and labels, a target batch of
  features, inside an epoch of \<open>fit\<close>), the loss handed to the backward
  pass is \<open>total_loss\<close>: the task loss, the cross-entropy of
  \<open>classifier(extractor(X_source))\<close> against the source labels, plus \<open>lambd\<close>
  times the domain loss, which is the cross-entropy of the domain classifier
  through gradient reversal on the source features against the class index 0
  plus the same on the target features against the class index 1. The step
  zeroes the gradients, runs one backward pass on this loss and one step of
  the optimizer over the parameters of the extractor, the classifier and the
  domain classifier, and nothing else but logging; it leaves the optimizer to
  the next step as it found it.
\<close>

theorem on_training_step_total_loss:
  assumes "0 < num_batches" and "0 < num_epochs"
      and "DANNTrainer_init base has_parameters classifier_num_classes lam af nc r wd
             = Inr self0"
      and "optimizer self = optimizer self0"
  shows "\<exists>gamma self' logs.
     reversal_coefficient (adaption_factor self) batch_id num_batches epoch_id num_epochs
       = Inr gamma
   \<and> on_training_step T self (X_source # y_source # more_source) (X_target # more_target)
         batch_id num_batches epoch_id num_epochs
       = Inr (self',
              [Zero_grad,
               Backward (total_loss T (lambd self) gamma X_source y_source X_target),
               Optimizer_step [extractor, classifier, domain_classifier]] @ logs)
   \<and> list_all is_log logs
   \<and> total_loss T (lambd self) gamma X_source y_source X_target =
       Add (Loss_fn (Module classifier (Module extractor (Input X_source))) (Input y_source))
         (Mul (lambd self)
            (Add (domain_loss T gamma X_source Zeros) (domain_loss T gamma X_target Ones)))
   \<and> tensor_value T (total_loss T (lambd self) gamma X_source y_source X_target) =
       cross_entropy T (forward T classifier (forward T extractor X_source)) y_source
       + lambd self *\<^sub>R
          (cross_entropy T (forward T domain_classifier (forward T extractor X_source))
             (zeros T (len T (forward T domain_classifier (forward T extractor X_source))))
           + cross_entropy T (forward T domain_classifier (forward T extractor X_target))
             (ones T (len T (forward T domain_classifier (forward T extractor X_target)))))
   \<and> optimizer self' = optimizer self0"
proof -
  from assms(1,2) obtain gamma where
    g: "reversal_coefficient (adaption_factor self) batch_id num_batches epoch_id num_epochs
          = Inr gamma"
    using reversal_coefficient_defined [of num_batches num_epochs] by fastforce
  from log_step_pos [OF assms(1)] have l: "\<lceil>real_of_int num_batches / 5\<rceil> \<noteq> 0"
    by linarith
  from DANNTrainer_init_optimizer [OF assms(3)] assms(4)
  have o: "optimizer self = [extractor, classifier, domain_classifier]"
    and o0: "optimizer self0 = [extractor, classifier, domain_classifier]"
    by simp_all
  let ?loss = "total_loss T (lambd self) gamma X_source y_source X_target"
  let ?logs = "if sampled batch_id num_batches \<and> is_main self
           then [Log (tensor_value T ?loss)
                   (100 *\<^sub>R accuracy T
                      [(argmax1 T (forward T classifier (forward T extractor X_source)),
                        y_source)])
                   (batch_id * world_size self) (num_batches * world_size self)]
           else []"
  let ?self' = "self\<lparr>train_accuracy :=
                 (if sampled batch_id num_batches
                  then [(argmax1 T (forward T classifier (forward T extractor X_source)),
                         y_source)]
                  else []),
               train_loss :=
                 (if sampled batch_id num_batches then [tensor_value T ?loss] else [])\<rparr>"
  have step: "on_training_step T self (X_source # y_source # more_source)
         (X_target # more_target) batch_id num_batches epoch_id num_epochs
       = Inr (?self', [Zero_grad, Backward ?loss,
                Optimizer_step [extractor, classifier, domain_classifier]] @ ?logs)"
    using on_training_step_unfold [OF g l, of T X_source y_source more_source
        X_target more_target]
    by (simp only: o)
  have logs: "list_all is_log ?logs" by simp
  have form: "?loss =
       Add (Loss_fn (Module classifier (Module extractor (Input X_source))) (Input y_source))
         (Mul (lambd self)
            (Add (domain_loss T gamma X_source Zeros) (domain_loss T gamma X_target Ones)))"
    by (simp add: total_loss_def task_loss_def)
  have keep: "optimizer ?self' = optimizer self0"
    using o o0 by simp
  show ?thesis
    apply (rule exI [of _ gamma])
    apply (rule exI [of _ ?self'])
    apply (rule exI [of _ ?logs])
    apply (intro conjI)
         apply (rule g)
        apply (rule step)
       apply (rule logs)
      apply (rule form)
     apply (rule tensor_value_total_loss)
    apply (rule keep)
    done
qed

text \<open>
  A trainer built with two classes, on modules that have parameters; the
  small trainer holds its optimizer and has been through a sampled step
  (its train loss holds a value). On the source batch \<open>(1, 2)\<close> and the target
  batch \<open>(3)\<close> the task loss is 1, the domain losses are 6 and 17, and
  \<open>lambd\<close> is 1/2.
\<close>

theorem on_training_step_total_loss_witness:
  "(0::int) < 1
   \<and> train_loss toy_trainer = [7]
   \<and> (\<exists>self0 :: real trainer.
        DANNTrainer_init (Inr (1, True)) (\<lambda>m. True) None (1 / 2) True (Some 2) (1 / 10000) 0
          = Inr self0
      \<and> optimizer toy_trainer = optimizer self0
      \<and> (\<exists>gamma self' logs.
            reversal_coefficient (adaption_factor toy_trainer) 0 1 0 1 = Inr gamma
          \<and> on_training_step toy_torch toy_trainer [1, 2] [3] 0 1 0 1
              = Inr (self',
                     [Zero_grad, Backward (total_loss toy_torch (1 / 2) gamma 1 2 3),
                      Optimizer_step [extractor, classifier, domain_classifier]] @ logs)
          \<and> tensor_value toy_torch (total_loss toy_torch (1 / 2) gamma 1 2 3) = 25 / 2
          \<and> optimizer self' = optimizer self0))"
proof -
  have h: "(0::int) < 1" by simp
  define self0 :: "real trainer" where
    "self0 = \<lparr>lr = 1 / 10000, weight_decay = 0, lambd = 1 / 2,
          adaption_factor = True, num_classes = 2,
          optimizer = [extractor, classifier, domain_classifier],
          train_loss = [], train_accuracy = [],
          val_loss = [], val_accuracy = [],
          test_loss = [], test_accuracy = [],
          world_size = 1, is_main = True\<rparr>"
  have i: "DANNTrainer_init (Inr (1, True)) (\<lambda>m. True) None (1 / 2) True (Some 2) (1 / 10000) 0
          = Inr self0"
    by (simp add: DANNTrainer_init_def bind_def Adam_def Accuracy_def self0_def)
  have o: "optimizer toy_trainer = optimizer self0"
    by (simp add: toy_trainer_def self0_def)
  from on_training_step_total_loss [OF h h i o,
      where T = toy_torch and batch_id = 0 and epoch_id = 0
        and X_source = 1 and y_source = 2 and more_source = "[]"
        and X_target = 3 and more_target = "[]"]
  obtain gamma self' logs where
    g: "reversal_coefficient (adaption_factor toy_trainer) 0 1 0 1 = Inr gamma"
    and s: "on_training_step toy_torch toy_trainer [1, 2] [3] 0 1 0 1
          = Inr (self',
                 [Zero_grad,
                  Backward (total_loss toy_torch (lambd toy_trainer) gamma 1 2 3),
                  Optimizer_step [extractor, classifier, domain_classifier]] @ logs)"
    and v: "tensor_value toy_torch (total_loss toy_torch (lambd toy_trainer) gamma 1 2 3) =
       cross_entropy toy_torch (forward toy_torch classifier (forward toy_torch extractor 1)) 2
       + lambd toy_trainer *\<^sub>R
          (cross_entropy toy_torch
             (forward toy_torch domain_classifier (forward toy_torch extractor 1))
             (zeros toy_torch (len toy_torch
                (forward toy_torch domain_classifier (forward toy_torch extractor 1))))
           + cross_entropy toy_torch
             (forward toy_torch domain_classifier (forward toy_torch extractor 3))
             (ones toy_torch (len toy_torch
                (forward toy_torch domain_classifier (forward toy_torch extractor 3)))))"
    and k: "optimizer self' = optimizer self0"
    by blast
  have l: "lambd toy_trainer = 1 / 2" and t: "train_loss toy_trainer = [7]"
    by (simp_all add: toy_trainer_def)
  have v': "tensor_value toy_torch (total_loss toy_torch (1 / 2) gamma 1 2 3) = 25 / 2"
    using v unfolding l by (simp add: toy_torch_def)
  from s have s': "on_training_step toy_torch toy_trainer [1, 2] [3] 0 1 0 1
          = Inr (self',
                 [Zero_grad, Backward (total_loss toy_torch (1 / 2) gamma 1 2 3),
                  Optimizer_step [extractor, classifier, domain_classifier]] @ logs)"
    by (simp only: l)
  show ?thesis
    apply (intro conjI)
      apply (rule h)
     apply (rule t)
    apply (rule exI [of _ self0])
    apply (intro conjI)
      apply (rule i)
     apply (rule o)
    apply (rule exI [of _ gamma])
    apply (rule exI [of _ self'])
    apply (rule exI [of _ logs])
    apply (intro conjI)
       apply (rule g)
      apply (rule s')
     apply (rule v')
    apply (rule k)
    done
qed

text \<open>
  C6. The result of a training step, the trainer and all the effects with
  the loss and its history, depends on the target batch only through its
  first element, the features: two target batches with the same first element
  give the same result, whatever else they hold.
\<close>

theorem on_training_step_target_features_only:
  "on_training_step T self source_loader (X_target # labels)
       batch_id num_batches epoch_id num_epochs =
   on_training_step T self source_loader (X_target # labels')
       batch_id num_batches epoch_id num_epochs"
  by (simp add: on_training_step_def getitem_0)

text \<open>
  C8. A training step resets the accumulators of the train loss and the
  train accuracy first: its result is the same whatever they held before.
  They are updated and a line is logged only when \<open>batch_id\<close> modulo
  \<open>ceil(num_batches / 5)\<close> is 0, and then they hold the one update of this
  batch, so the logged loss and accuracy are those of this batch alone; on
  the other steps they are left empty and nothing is logged.
\<close>

theorem on_training_step_metrics_of_this_batch:
  assumes "0 < num_batches" and "0 < num_epochs"
  shows "\<exists>gamma self' effects.
     reversal_coefficient (adaption_factor self) batch_id num_batches epoch_id num_epochs
       = Inr gamma
   \<and> on_training_step T self (X_source # y_source # more_source) (X_target # more_target)
         batch_id num_batches epoch_id num_epochs = Inr (self', effects)
   \<and> on_training_step T (self\<lparr>train_loss := old_loss, train_accuracy := old_accuracy\<rparr>)
         (X_source # y_source # more_source) (X_target # more_target)
         batch_id num_batches epoch_id num_epochs = Inr (self', effects)
   \<and> (batch_id mod \<lceil>real_of_int num_batches / 5\<rceil> = 0 \<longrightarrow>
        train_loss self' =
          [tensor_value T (total_loss T (lambd self) gamma X_source y_source X_target)]
        \<and> train_accuracy self' =
          [(argmax1 T (forward T classifier (forward T extractor X_source)), y_source)]
        \<and> filter is_log effects =
          (if is_main self
           then [Log (tensor_value T
                        (total_loss T (lambd self) gamma X_source y_source X_target))
                   (100 *\<^sub>R accuracy T
                      [(argmax1 T (forward T classifier (forward T extractor X_source)),
                        y_source)])
                   (batch_id * world_size self) (num_batches * world_size self)]
           else []))
   \<and> (batch_id mod \<lceil>real_of_int num_batches / 5\<rceil> \<noteq> 0 \<longrightarrow>
        train_loss self' = [] \<and> train_accuracy self' = [] \<and> filter is_log effects = [])"
proof -
  from assms obtain gamma where
    g: "reversal_coefficient (adaption_factor self) batch_id num_batches epoch_id num_epochs
          = Inr gamma"
    using reversal_coefficient_defined [of num_batches num_epochs] by fastforce
  from log_step_pos [OF assms(1)] have l: "\<lceil>real_of_int num_batches / 5\<rceil> \<noteq> 0"
    by linarith
  let ?old = "self\<lparr>train_loss := old_loss, train_accuracy := old_accuracy\<rparr>"
  have g': "reversal_coefficient (adaption_factor ?old) batch_id num_batches epoch_id num_epochs
          = Inr gamma"
    using g by simp
  note a = on_training_step_unfold [OF g l, of T X_source y_source more_source
      X_target more_target]
  note b = on_training_step_unfold [OF g' l, of T X_source y_source more_source
      X_target more_target]
  show ?thesis
    apply (rule exI [of _ gamma])
    apply (intro exI conjI)
        apply (rule g)
       apply (rule a)
      apply (simp add: b)
     apply (simp add: sampled_def)
    apply (simp add: sampled_def)
    done
qed

text \<open>
The small trainer, whose train loss holds 7 before the step, on a sampled
  step (step 0 of 1) and on one that is not (step 1 of 10).
\<close>

theorem on_training_step_metrics_of_this_batch_witness:
  "(0::int) < 1 \<and> (0::int) < 10
   \<and> train_loss toy_trainer = [7]
   \<and> (0::int) mod \<lceil>real_of_int 1 / 5\<rceil> = 0
   \<and> (\<exists>self' effects.
        on_training_step toy_torch toy_trainer [1, 2] [3] 0 1 0 1 = Inr (self', effects)
      \<and> train_loss self' = [25 / 2] \<and> train_accuracy self' = [(3, 2)]
      \<and> filter is_log effects = [Log (25 / 2) 100 0 1])
   \<and> (1::int) mod \<lceil>real_of_int 10 / 5\<rceil> \<noteq> 0
   \<and> (\<exists>self' effects.
        on_training_step toy_torch toy_trainer [1, 2] [3] 1 10 0 1 = Inr (self', effects)
      \<and> train_loss self' = [] \<and> train_accuracy self' = []
      \<and> filter is_log effects = [])"
proof -
  have h1: "(0::int) < 1" and h10: "(0::int) < 10" by simp_all
  have c: "\<lceil>real_of_int 10 / 5\<rceil> = 2" "\<lceil>real_of_int 1 / 5\<rceil> = 1"
    by (simp_all add: ceiling_eq_iff)
  have v: "tensor_value toy_torch (total_loss toy_torch (lambd toy_trainer) gamma 1 2 3)
             = 25 / 2" for gamma
    by (simp add: tensor_value_total_loss toy_torch_def toy_trainer_def)
  have t: "is_main toy_trainer" "world_size toy_trainer = 1" "train_loss toy_trainer = [7]"
    "argmax1 toy_torch (forward toy_torch classifier (forward toy_torch extractor 1)) = 3"
    "accuracy toy_torch us = 1" for us
    by (simp_all add: toy_torch_def toy_trainer_def)
  from on_training_step_metrics_of_this_batch [OF h1 h1,
      where self = toy_trainer and T = toy_torch and batch_id = 0 and epoch_id = 0
        and X_source = 1 and y_source = 2 and more_source = "[]"
        and X_target = 3 and more_target = "[]" and old_loss = "[]"
        and old_accuracy = "[]"]
  have first: "\<exists>self' effects.
        on_training_step toy_torch toy_trainer [1, 2] [3] 0 1 0 1 = Inr (self', effects)
      \<and> train_loss self' = [25 / 2] \<and> train_accuracy self' = [(3, 2)]
      \<and> filter is_log effects = [Log (25 / 2) 100 0 1]"
    by (auto simp: c v t)
  from on_training_step_metrics_of_this_batch [OF h10 h1,
      where self = toy_trainer and T = toy_torch and batch_id = 1 and epoch_id = 0
        and X_source = 1 and y_source = 2 and more_source = "[]"
        and X_target = 3 and more_target = "[]" and old_loss = "[]"
        and old_accuracy = "[]"]
  have second: "\<exists>self' effects.
        on_training_step toy_torch toy_trainer [1, 2] [3] 1 10 0 1 = Inr (self', effects)
      \<and> train_loss self' = [] \<and> train_accuracy self' = []
      \<and> filter is_log effects = []"
    by (auto simp: c)
  from first second c t(3) show ?thesis by simp
qed

section \<open>The construction of the trainer\<close>

lemma Adam_eq:
  "Adam hp [extractor, classifier, domain_classifier] r wd =
     (if 0 \<le> r \<and> 0 \<le> wd \<and> (hp extractor \<or> hp classifier \<or> hp domain_classifier)
      then Inr [extractor, classifier, domain_classifier] else Inl ValueError)"
  by (auto simp: Adam_def)

lemma DANNTrainer_init_chosen:
  assumes "(case nc of Some k \<Rightarrow> Some k | None \<Rightarrow> cnc) = Some n"
  shows "(DANNTrainer_init (Inr (ws, main)) hp cnc lam af nc r wd :: error + 't trainer) =
     (if 0 \<le> r \<and> 0 \<le> wd \<and> (hp extractor \<or> hp classifier \<or> hp domain_classifier)
         \<and> 2 \<le> n
      then Inr \<lparr>lr = r, weight_decay = wd, lambd = lam,
          adaption_factor = af, num_classes = n,
          optimizer = [extractor, classifier, domain_classifier],
          train_loss = [], train_accuracy = [],
          val_loss = [], val_accuracy = [],
          test_loss = [], test_accuracy = [],
          world_size = ws, is_main = main\<rparr>
      else Inl ValueError)"
proof -
  from assms have n: "(case nc of
             Some n \<Rightarrow> Inr n
           | None \<Rightarrow>
               (case cnc of
                  Some n \<Rightarrow> Inr n
                | None \<Rightarrow> Inl ValueError)) = (Inr n :: error + int)"
    by (simp split: option.splits)
  show ?thesis
    unfolding DANNTrainer_init_def n
    by (simp add: bind_def Adam_eq Accuracy_def)
qed

text \<open>
  C7 as stated fails: the construction raises a \<open>ValueError\<close> also when
  \<open>num_classes\<close> is passed. With \<open>num_classes = 1\<close> the \<open>Accuracy\<close> metric
  refuses the number of classes, and with \<open>lr = -1\<close> the optimizer refuses the
  learning rate.
\<close>

theorem DANNTrainer_init_raises_with_num_classes_counterexample:
  "DANNTrainer_init (Inr (1, True)) (\<lambda>m. True) None 1 False (Some 1) (1 / 10000) 0
     = (Inl ValueError :: error + real trainer)
   \<and> DANNTrainer_init (Inr (1, True)) (\<lambda>m. True) None 1 False (Some 2) (- 1) 0
     = (Inl ValueError :: error + real trainer)
   \<and> Some (1::int) \<noteq> None"
  by (simp add: DANNTrainer_init_def bind_def Adam_def Accuracy_def)

text \<open>
  C7, amended. When the base trainer's construction returns, the
  construction of the trainer raises a \<open>ValueError\<close> when \<open>num_classes\<close> is not
  passed and the classifier has no attribute \<open>num_classes\<close>. Otherwise the
  number of classes is the value passed when there is one, the attribute of
  the classifier when not, and the construction succeeds, with that number
  as \<open>num_classes\<close> of the trainer, exactly when the learning rate and the weight
  decay are not negative, one of the three modules has parameters and the
  number of classes is at least 2; when not, it raises a \<open>ValueError\<close>. When
  the base trainer's construction raises, so does the construction.
\<close>

theorem DANNTrainer_init_num_classes:
  "(nc = None \<and> classifier_num_classes = None \<longrightarrow>
      DANNTrainer_init (Inr (ws, main)) hp classifier_num_classes lam af nc r wd
        = (Inl ValueError :: error + 't trainer))
   \<and> ((case nc of Some k \<Rightarrow> Some k | None \<Rightarrow> classifier_num_classes) = Some n \<longrightarrow>
        (if 0 \<le> r \<and> 0 \<le> wd \<and> (hp extractor \<or> hp classifier \<or> hp domain_classifier)
            \<and> 2 \<le> n
         then \<exists>tr :: 't trainer.
                DANNTrainer_init (Inr (ws, main)) hp classifier_num_classes lam af nc r wd
                  = Inr tr
                \<and> num_classes tr = n
         else DANNTrainer_init (Inr (ws, main)) hp classifier_num_classes lam af nc r wd
                = (Inl ValueError :: error + 't trainer)))
   \<and> DANNTrainer_init (Inl e) hp classifier_num_classes lam af nc r wd
        = (Inl e :: error + 't trainer)"
proof (intro conjI impI)
  assume "nc = None \<and> classifier_num_classes = None"
  then show "DANNTrainer_init (Inr (ws, main)) hp classifier_num_classes lam af nc r wd
        = (Inl ValueError :: error + 't trainer)"
    by (simp add: DANNTrainer_init_def bind_def)
next
  assume "(case nc of Some k \<Rightarrow> Some k | None \<Rightarrow> classifier_num_classes) = Some n"
  from DANNTrainer_init_chosen [OF this, where 't = 't]
  show "if 0 \<le> r \<and> 0 \<le> wd \<and> (hp extractor \<or> hp classifier \<or> hp domain_classifier)
            \<and> 2 \<le> n
         then \<exists>tr :: 't trainer.
                DANNTrainer_init (Inr (ws, main)) hp classifier_num_classes lam af nc r wd
                  = Inr tr
                \<and> num_classes tr = n
         else DANNTrainer_init (Inr (ws, main)) hp classifier_num_classes lam af nc r wd
                = (Inl ValueError :: error + 't trainer)"
    by simp
next
  show "DANNTrainer_init (Inl e) hp classifier_num_classes lam af nc r wd
        = (Inl e :: error + 't trainer)"
    by (simp add: DANNTrainer_init_def bind_def)
qed

text \<open>
  Neither given; both given; only the attribute of the classifier; one class
  passed; a base trainer that raises.
\<close>

theorem DANNTrainer_init_num_classes_witness:
  "DANNTrainer_init (Inr (1, True)) (\<lambda>m. True) None 1 False None (1 / 10000) 0
     = (Inl ValueError :: error + real trainer)
   \<and> (\<exists>tr :: real trainer.
         DANNTrainer_init (Inr (1, True)) (\<lambda>m. True) (Some 4) 1 False (Some 2) (1 / 10000) 0
           = Inr tr
         \<and> num_classes tr = 2)
   \<and> (\<exists>tr :: real trainer.
         DANNTrainer_init (Inr (1, True)) (\<lambda>m. True) (Some 4) 1 False None (1 / 10000) 0
           = Inr tr
         \<and> num_classes tr = 4)
   \<and> DANNTrainer_init (Inr (1, True)) (\<lambda>m. True) None 1 False (Some 1) (1 / 10000) 0
     = (Inl ValueError :: error + real trainer)
   \<and> DANNTrainer_init (Inl RuntimeError) (\<lambda>m. True) None 1 False (Some 2) (1 / 10000) 0
     = (Inl RuntimeError :: error + real trainer)"
proof -
  note a = DANNTrainer_init_num_classes [where 't = real and ws = 1 and main = True
      and hp = "\<lambda>m. True" and classifier_num_classes = None and lam = 1 and af = False
      and nc = None and r = "1 / 10000" and wd = 0, THEN conjunct1]
  note b = DANNTrainer_init_num_classes [where 't = real and ws = 1 and main = True
      and hp = "\<lambda>m. True" and classifier_num_classes = "Some 4" and lam = 1 and af = False
      and nc = "Some 2" and r = "1 / 10000" and wd = 0 and n = 2,
      THEN conjunct2, THEN conjunct1]
  note c = DANNTrainer_init_num_classes [where 't = real and ws = 1 and main = True
      and hp = "\<lambda>m. True" and classifier_num_classes = "Some 4" and lam = 1 and af = False
      and nc = None and r = "1 / 10000" and wd = 0 and n = 4,
      THEN conjunct2, THEN conjunct1]
  note d = DANNTrainer_init_num_classes [where 't = real and ws = 1 and main = True
      and hp = "\<lambda>m. True" and classifier_num_classes = None and lam = 1 and af = False
      and nc = "Some 1" and r = "1 / 10000" and wd = 0 and n = 1,
      THEN conjunct2, THEN conjunct1]
  note e = DANNTrainer_init_num_classes [where 't = real and e = RuntimeError
      and hp = "\<lambda>m. True" and classifier_num_classes = None and lam = 1 and af = False
      and nc = "Some 2" and r = "1 / 10000" and wd = 0,
      THEN conjunct2, THEN conjunct2]
  from a b c d e show ?thesis by simp
qed

section \<open>Retrieval from the dataset\<close>

lemma cached_row:
  assumes "cached str self" and "row \<in> set (info self)"
  shows "\<exists>c eeg. map_of row ''clip_id'' = Some c \<and> eeg_io self (str c) = Some eeg"
proof -
  from assms have "case map_of row ''clip_id'' of
                     None \<Rightarrow> False
                   | Some c \<Rightarrow> eeg_io self (str c) \<noteq> None"
    by (simp add: cached_def list_all_iff)
  then show ?thesis by (auto split: option.splits)
qed

lemma AMIGOSDataset_getitem_unfold:
  assumes "getitem (info self) index = Inr row"
      and "map_of row ''clip_id'' = Some c"
      and "eeg_io self (str c) = Some eeg"
  shows "AMIGOSDataset_getitem str self index =
     Inr (((case online_transform self of Some f \<Rightarrow> f eeg | None \<Rightarrow> eeg),
           (case label_transform self of
              None \<Rightarrow> map snd row
            | Some g \<Rightarrow>
                (case g row of
                   Info_list xs \<Rightarrow> xs
                 | Info_dict d \<Rightarrow> map snd d
                 | Info_other v \<Rightarrow> [v]))),
          self)"
  using assms
  by (simp add: AMIGOSDataset_getitem_def bind_Inr dict_get_def read_eeg_def Let_def
      split: option.splits info.splits)

lemma AMIGOSDataset_getitem_cached:
  assumes "cached str self" and "valid_index (info self) index"
  shows "\<exists>c eeg.
      map_of (iloc (info self) index) ''clip_id'' = Some c
    \<and> eeg_io self (str c) = Some eeg
    \<and> AMIGOSDataset_getitem str self index =
        Inr (((case online_transform self of Some f \<Rightarrow> f eeg | None \<Rightarrow> eeg),
              (case label_transform self of
                 None \<Rightarrow> map snd (iloc (info self) index)
               | Some g \<Rightarrow>
                   (case g (iloc (info self) index) of
                      Info_list xs \<Rightarrow> xs
                    | Info_dict d \<Rightarrow> map snd d
                    | Info_other v \<Rightarrow> [v]))),
             self)"
proof -
  let ?row = "iloc (info self) index"
  from assms obtain c eeg where
    c: "map_of ?row ''clip_id'' = Some c" and e: "eeg_io self (str c) = Some eeg"
    using cached_row [OF assms(1) iloc_in_set [OF assms(2)]] by blast
  from AMIGOSDataset_getitem_unfold [where str = str and self = self and c = c,
      OF getitem_valid [OF assms(2)] c e] c e
  show ?thesis by blast
qed

lemma toy_cached: "cached (\<lambda>s. s) toy_dataset"
  by (simp add: cached_def toy_dataset_def toy_rows_def)

lemma toy_iloc:
  "iloc toy_rows (- 1) = [(''clip_id'', ''s01_1''), (''valence'', ''3'')]"
  "iloc toy_rows 0 = [(''clip_id'', ''s01_0''), (''valence'', ''7'')]"
  by (simp_all add: iloc_def toy_rows_def)

text \<open>
  C5. For every valid index of a dataset whose rows are in the cache,
  \<open>__getitem__\<close> looks up the row of the index, reads the array stored under
  its clip identifier, applies the online transform to the signal when one is
  set and the label transform to the row when one is set, and returns the
  signal followed by the labels: the elements of a list, the values of a dict,
  the single value otherwise. It leaves the dataset as it was, and its result
  is the same for any dataset with the same table, store and transforms.
\<close>

theorem AMIGOSDataset_getitem_returns_signal_and_labels:
  assumes "cached str self" and "valid_index (info self) index"
  shows "\<exists>clip_id eeg.
      map_of (iloc (info self) index) ''clip_id'' = Some clip_id
    \<and> eeg_io self (str clip_id) = Some eeg
    \<and> AMIGOSDataset_getitem str self index =
        Inr (((case online_transform self of Some f \<Rightarrow> f eeg | None \<Rightarrow> eeg),
              (case label_transform self of
                 None \<Rightarrow> map snd (iloc (info self) index)
               | Some g \<Rightarrow>
                   (case g (iloc (info self) index) of
                      Info_list xs \<Rightarrow> xs
                    | Info_dict d \<Rightarrow> map snd d
                    | Info_other v \<Rightarrow> [v]))),
             self)
    \<and> (\<forall>other.
          info other = info self \<and> eeg_io other = eeg_io self
          \<and> online_transform other = online_transform self
          \<and> label_transform other = label_transform self \<longrightarrow>
          map_sum id fst (AMIGOSDataset_getitem str other index) =
          map_sum id fst (AMIGOSDataset_getitem str self index))"
proof -
  from AMIGOSDataset_getitem_cached [OF assms] obtain c eeg where
    c: "map_of (iloc (info self) index) ''clip_id'' = Some c"
    and e: "eeg_io self (str c) = Some eeg"
    and r: "AMIGOSDataset_getitem str self index =
        Inr (((case online_transform self of Some f \<Rightarrow> f eeg | None \<Rightarrow> eeg),
              (case label_transform self of
                 None \<Rightarrow> map snd (iloc (info self) index)
               | Some g \<Rightarrow>
                   (case g (iloc (info self) index) of
                      Info_list xs \<Rightarrow> xs
                    | Info_dict d \<Rightarrow> map snd d
                    | Info_other v \<Rightarrow> [v]))),
             self)"
    by blast
  have "map_sum id fst (AMIGOSDataset_getitem str other index) =
        map_sum id fst (AMIGOSDataset_getitem str self index)"
    if o: "info other = info self \<and> eeg_io other = eeg_io self
          \<and> online_transform other = online_transform self
          \<and> label_transform other = label_transform self" for other
  proof -
    from o assms(2) have g: "getitem (info other) index = Inr (iloc (info self) index)"
      by (simp add: getitem_valid)
    from o e have e': "eeg_io other (str c) = Some eeg" by simp
    from AMIGOSDataset_getitem_unfold [where str = str and self = other and c = c,
        OF g c e'] r o
    show ?thesis by simp
  qed
  with c e r show ?thesis by blast
qed

text \<open>
The last row of the small dataset, by the index \<open>-1\<close>.
\<close>

theorem AMIGOSDataset_getitem_returns_signal_and_labels_witness:
  "cached (\<lambda>s. s) toy_dataset
   \<and> valid_index (info toy_dataset) (- 1)
   \<and> AMIGOSDataset_getitem (\<lambda>s. s) toy_dataset (- 1) = Inr (([6, 8], [''3'']), toy_dataset)"
proof -
  have v: "valid_index (info toy_dataset) (- 1)"
    by (simp add: valid_index_def toy_dataset_def toy_rows_def)
  have i: "info toy_dataset = toy_rows"
    by (simp add: toy_dataset_def)
  from AMIGOSDataset_getitem_returns_signal_and_labels [OF toy_cached v]
  obtain c eeg where
    c: "map_of (iloc (info toy_dataset) (- 1)) ''clip_id'' = Some c"
    and e: "eeg_io toy_dataset c = Some eeg"
    and r: "AMIGOSDataset_getitem (\<lambda>s. s) toy_dataset (- 1) =
        Inr (((case online_transform toy_dataset of Some f \<Rightarrow> f eeg | None \<Rightarrow> eeg),
              (case label_transform toy_dataset of
                 None \<Rightarrow> map snd (iloc (info toy_dataset) (- 1))
               | Some g \<Rightarrow>
                   (case g (iloc (info toy_dataset) (- 1)) of
                      Info_list xs \<Rightarrow> xs
                    | Info_dict d \<Rightarrow> map snd d
                    | Info_other v \<Rightarrow> [v]))),
             toy_dataset)"
    by blast
  from c have c': "c = ''s01_1''"
    by (simp add: i toy_iloc)
  from e c' have e': "eeg = [3, 4]"
    by (simp add: toy_dataset_def)
  have o: "online_transform toy_dataset = Some (map (\<lambda>x. 2 * x))"
    and l: "label_transform toy_dataset = Some (\<lambda>row. Info_list (map snd (tl row)))"
    by (simp_all add: toy_dataset_def)
  from r have "AMIGOSDataset_getitem (\<lambda>s. s) toy_dataset (- 1) =
      Inr (([6, 8], [''3'']), toy_dataset)"
    unfolding o l e' i toy_iloc by simp
  with toy_cached v show ?thesis by simp
qed

text \<open>
  C10. With no label transform, \<open>__getitem__\<close> returns the signal followed by
  the values of every column of the row, the clip identifier among them.
\<close>

theorem AMIGOSDataset_getitem_no_label_transform:
  assumes "label_transform self = None"
      and "cached str self" and "valid_index (info self) index"
  shows "\<exists>clip_id eeg.
      map_of (iloc (info self) index) ''clip_id'' = Some clip_id
    \<and> eeg_io self (str clip_id) = Some eeg
    \<and> AMIGOSDataset_getitem str self index =
        Inr (((case online_transform self of Some f \<Rightarrow> f eeg | None \<Rightarrow> eeg),
              map snd (iloc (info self) index)), self)
    \<and> clip_id \<in> set (map snd (iloc (info self) index))"
proof -
  from AMIGOSDataset_getitem_cached [OF assms(2,3)] obtain c eeg where
    c: "map_of (iloc (info self) index) ''clip_id'' = Some c"
    and e: "eeg_io self (str c) = Some eeg"
    and r: "AMIGOSDataset_getitem str self index =
        Inr (((case online_transform self of Some f \<Rightarrow> f eeg | None \<Rightarrow> eeg),
              (case label_transform self of
                 None \<Rightarrow> map snd (iloc (info self) index)
               | Some g \<Rightarrow>
                   (case g (iloc (info self) index) of
                      Info_list xs \<Rightarrow> xs
                    | Info_dict d \<Rightarrow> map snd d
                    | Info_other v \<Rightarrow> [v]))),
             self)"
    by blast
  from c have "(''clip_id'', c) \<in> set (iloc (info self) index)"
    by (rule map_of_SomeD)
  then have "c \<in> set (map snd (iloc (info self) index))"
    by force
  with c e r assms(1) show ?thesis by auto
qed

text \<open>
The first row of the small dataset without its label transform.
\<close>

theorem AMIGOSDataset_getitem_no_label_transform_witness:
  "label_transform (toy_dataset\<lparr>label_transform := None\<rparr>) = None
   \<and> cached (\<lambda>s. s) (toy_dataset\<lparr>label_transform := None\<rparr>)
   \<and> valid_index (info (toy_dataset\<lparr>label_transform := None\<rparr>)) 0
   \<and> AMIGOSDataset_getitem (\<lambda>s. s) (toy_dataset\<lparr>label_transform := None\<rparr>) 0 =
       Inr (([2, 4], [''s01_0'', ''7'']), toy_dataset\<lparr>label_transform := None\<rparr>)"
proof -
  let ?d = "toy_dataset\<lparr>label_transform := None\<rparr>"
  have n: "label_transform ?d = None" by simp
  have k: "cached (\<lambda>s. s) ?d"
    by (simp add: cached_def toy_dataset_def toy_rows_def)
  have v: "valid_index (info ?d) 0"
    by (simp add: valid_index_def toy_dataset_def toy_rows_def)
  have i: "info ?d = toy_rows"
    by (simp add: toy_dataset_def)
  from AMIGOSDataset_getitem_no_label_transform [OF n k v]
  obtain c eeg where
    c: "map_of (iloc (info ?d) 0) ''clip_id'' = Some c"
    and e: "eeg_io ?d c = Some eeg"
    and r: "AMIGOSDataset_getitem (\<lambda>s. s) ?d 0 =
        Inr (((case online_transform ?d of Some f \<Rightarrow> f eeg | None \<Rightarrow> eeg),
              map snd (iloc (info ?d) 0)), ?d)"
    by blast
  from c have c': "c = ''s01_0''"
    by (simp add: i toy_iloc)
  from e c' have e': "eeg = [1, 2]"
    by (simp add: toy_dataset_def)
  have o: "online_transform ?d = Some (map (\<lambda>x. 2 * x))"
    by (simp add: toy_dataset_def)
  from r have "AMIGOSDataset_getitem (\<lambda>s. s) ?d 0 = Inr (([2, 4], [''s01_0'', ''7'']), ?d)"
    unfolding o e' i toy_iloc by simp
  with n k v show ?thesis by simp
qed

section \<open>Construction of the dataset\<close>

lemma amigos_constructor_exists:
  assumes "amigos_constructor slice rp cs ov cn tn tr io disk = (disk', written)"
  shows "disk' io \<noteq> None"
  using assms
  by (auto simp: amigos_constructor_def Let_def split: option.splits)

lemma amigos_constructor_existing:
  assumes "disk io \<noteq> None"
  shows "amigos_constructor slice rp cs ov cn tn tr io disk = (disk, [])"
  using assms
  by (auto simp: amigos_constructor_def split: option.splits)

text \<open>
  C9. Constructing the dataset a second time with the same configuration, on
  the disk that the first construction left, writes no chunk, leaves the disk
  as it is and gives the same dataset.
\<close>

theorem AMIGOSDataset_init_idempotent:
  assumes "AMIGOSDataset_init slice rp cs ov cn tn on off lt io vb disk
             = (result, disk', written)"
  shows "AMIGOSDataset_init slice rp cs ov cn tn on off lt io vb disk'
             = (result, disk', [])
         \<and> amigos_constructor slice rp cs ov cn tn off io disk' = (disk', [])"
proof -
  obtain d w where a: "amigos_constructor slice rp cs ov cn tn off io disk = (d, w)"
    by (cases "amigos_constructor slice rp cs ov cn tn off io disk")
  with assms have d: "d = disk'"
    by (auto simp: AMIGOSDataset_init_def split: option.splits)
  from amigos_constructor_exists [OF a] d have ex: "disk' io \<noteq> None" by simp
  note b = amigos_constructor_existing [where disk = disk' and io = io and slice = slice
      and rp = rp and cs = cs and ov = ov and cn = cn and tn = tn and tr = off, OF ex]
  from assms a d ex b show ?thesis
    by (auto simp: AMIGOSDataset_init_def split: option.splits)
qed

text \<open>
An empty disk: the first construction writes two chunks, the second none.
\<close>

theorem AMIGOSDataset_init_idempotent_witness:
  "\<exists>result disk.
     AMIGOSDataset_init toy_slice ''./data_preprocessed'' 128 0 14 16
        None None (None :: (string row \<Rightarrow> string info) option) ''./io/amigos'' True Map.empty
       = (Inr result, disk, [''s01_0'', ''s01_1''])
   \<and> info result = toy_rows
   \<and> AMIGOSDataset_init toy_slice ''./data_preprocessed'' 128 0 14 16
        None None (None :: (string row \<Rightarrow> string info) option) ''./io/amigos'' True disk
       = (Inr result, disk, [])"
proof -
  obtain res disk w where
    a: "AMIGOSDataset_init toy_slice ''./data_preprocessed'' 128 0 14 16
        None None (None :: (string row \<Rightarrow> string info) option) ''./io/amigos'' True Map.empty
       = (res, disk, w)"
    using prod_cases3 by blast
  note b = AMIGOSDataset_init_idempotent [OF a, THEN conjunct1]
  from a have w: "w = [''s01_0'', ''s01_1'']"
    by (simp add: AMIGOSDataset_init_def amigos_constructor_def toy_slice_def Let_def)
  from a obtain result where r: "res = Inr result" and i: "info result = toy_rows"
    by (auto simp: AMIGOSDataset_init_def amigos_constructor_def toy_slice_def Let_def
        toy_rows_def)
  from a b w r i show ?thesis by blast
qed


end
